theory Spec2Isabelle
  imports Main "HOL-Library.AList"
begin

section \<open>Values\<close>

text \<open>
  The request body is JSON. A submitted field is absent, \<open>null\<close>, a boolean or a string;
  the same type stands for the identifiers and URLs the external services hand back.
  Numbers, arrays and objects as field values are outside this model. A character of a
  HOL string stands for the JavaScript character of the same code, from 0 to 255; strings
  with characters beyond that range are outside this model.
\<close>

datatype jsval = VUndefined | VNull | VBool bool | VStr string

text \<open>The result of \<open>JSON.parse\<close>: never \<open>undefined\<close>.\<close>

datatype json =
    JNull
  | JBool bool
  | JNum int
  | JStr string
  | JArr "json list"
  | JObj "(string \<times> json) list"

text \<open>A call that may throw (or, for the subscriber store, hand back an error object).\<close>

datatype 'a outcome = Failed | Returned 'a

text \<open>JavaScript truthiness, as used by \<open>if (honeypot)\<close> and \<open>!formData[field]\<close>.\<close>

fun truthy :: "jsval \<Rightarrow> bool" where
  "truthy VUndefined = False"
| "truthy VNull = False"
| "truthy (VBool b) = b"
| "truthy (VStr s) = (s \<noteq> [])"

text \<open>The string a validator or sanitizer of the chain sees for a field value.\<close>

fun toString :: "jsval \<Rightarrow> string" where
  "toString VUndefined = []"
| "toString VNull = []"
| "toString (VBool b) = (if b then ''true'' else ''false'')"
| "toString (VStr s) = s"

section \<open>Strings\<close>

text \<open>White space, as \<open>trim\<close> and the class \<open>\s\<close> of a regular expression have it: among
  the characters up to 255, the tab, the line feed, the vertical tab, the form feed, the
  carriage return, the space and the no-break space.\<close>

definition is_space :: "char \<Rightarrow> bool" where
  "is_space c \<longleftrightarrow>
     c \<in> set [CHR 0x09, CHR 0x0A, CHR 0x0B, CHR 0x0C, CHR 0x0D, CHR 0x20, CHR 0xA0]"

definition trim :: "string \<Rightarrow> string" where
  "trim s = rev (dropWhile is_space (rev (dropWhile is_space s)))"

definition startsWith :: "string \<Rightarrow> string \<Rightarrow> bool" where
  "startsWith s p \<longleftrightarrow> take (length p) s = p"

definition endsWith :: "string \<Rightarrow> string \<Rightarrow> bool" where
  "endsWith s p \<longleftrightarrow> length p \<le> length s \<and> drop (length s - length p) s = p"

text \<open>\<open>s.slice(a, -b)\<close>: from index \<open>a\<close> up to \<open>b\<close> characters before the end, empty when
  the two bounds cross.\<close>

definition slice :: "string \<Rightarrow> nat \<Rightarrow> nat \<Rightarrow> string" where
  "slice s a b = drop a (take (length s - b) s)"

fun joinWith :: "string \<Rightarrow> string list \<Rightarrow> string" where
  "joinWith sep [] = []"
| "joinWith sep [x] = x"
| "joinWith sep (x # y # ys) = x @ sep @ joinWith sep (y # ys)"

text \<open>The \<open>escape\<close> sanitizer: the eight replacements, the ampersand first.\<close>

fun escape_char :: "char \<Rightarrow> string" where
  "escape_char c =
     (if c = CHR ''&'' then ''&amp;''
      else if c = CHR 0x22 then ''&quot;''
      else if c = CHR 0x27 then ''&#x27;''
      else if c = CHR ''<'' then ''&lt;''
      else if c = CHR ''>'' then ''&gt;''
      else if c = CHR ''/'' then ''&#x2F;''
      else if c = CHR 0x5C then ''&#x5C;''
      else if c = CHR 0x60 then ''&#96;''
      else [c])"

definition escape :: "string \<Rightarrow> string" where
  "escape s = concat (map escape_char s)"

section \<open>Library functions taken as parameters\<close>

text \<open>
  The handler calls these functions of the JavaScript runtime and of the validator
  library; they are parameters of the model. \<open>JSON_parse\<close> and \<open>Date_parse\<close> give
  \<open>None\<close> where \<open>JSON.parse\<close> throws and where \<open>new Date(s)\<close> is an invalid date.
\<close>

record lib =
  isEmail :: "string \<Rightarrow> bool"
  normalizeEmail :: "string \<Rightarrow> string"
  JSON_parse :: "string \<Rightarrow> json option"
  toISOString :: "int \<Rightarrow> string"
  Date_parse :: "string \<Rightarrow> int option"

section \<open>generateAssessment: cleaning and parsing the completion\<close>

definition stripFence :: "string \<Rightarrow> string" where
  "stripFence jsonString =
     (if startsWith jsonString ''```json'' \<and> endsWith jsonString ''```''
      then trim (slice jsonString 7 3)
      else if startsWith jsonString ''```'' \<and> endsWith jsonString ''```''
      then trim (slice jsonString 3 3)
      else jsonString)"

text \<open>\<open>rawContent.match(/{[\s\S]*}/)\<close>: from the first opening brace to the last closing
  brace after it; no match when no closing brace follows an opening one.\<close>

definition jsonMatch :: "string \<Rightarrow> string option" where
  "jsonMatch rawContent =
     (case dropWhile (\<lambda>c. c \<noteq> CHR ''{'') rawContent of
        [] \<Rightarrow> None
      | b # rest \<Rightarrow>
          if CHR ''}'' \<in> set rest
          then Some (b # rev (dropWhile (\<lambda>c. c \<noteq> CHR ''}'') (rev rest)))
          else None)"

definition parseContent :: "lib \<Rightarrow> string \<Rightarrow> json outcome" where
  "parseContent L rawContent =
     (let jsonString = stripFence (trim rawContent) in
      case JSON_parse L jsonString of
        Some assessment \<Rightarrow> Returned assessment
      | None \<Rightarrow>
          (case jsonMatch rawContent of
             None \<Rightarrow> Failed
           | Some m \<Rightarrow>
               (case JSON_parse L m of
                  None \<Rightarrow> Failed
                | Some assessment \<Rightarrow> Returned assessment)))"

text \<open>The argument is what the completion API answered: \<open>Failed\<close> when the call throws
  or the answer carries no text at \<open>choices[0].message.content\<close>. Every error inside is
  rethrown as the one generation error.\<close>

definition generateAssessment :: "lib \<Rightarrow> string outcome \<Rightarrow> json outcome" where
  "generateAssessment L response =
     (case response of
        Failed \<Rightarrow> Failed
      | Returned rawContent \<Rightarrow> parseContent L rawContent)"

section \<open>The request and its validation chain\<close>

record form_data =
  name :: jsval
  email :: jsval
  company :: jsval
  company_size :: jsval
  it_challenge :: jsval
  it_setup :: jsval
  consent :: jsval

record request =
  formData :: form_data
  verificationToken :: jsval
  honeypot :: jsval
  recaptchaToken :: jsval

datatype verror = InvalidValue string

definition isLength :: "string \<Rightarrow> nat \<Rightarrow> nat \<Rightarrow> bool" where
  "isLength s mn mx \<longleftrightarrow> mn \<le> length s \<and> length s \<le> mx"

definition isBoolean :: "string \<Rightarrow> bool" where
  "isBoolean s \<longleftrightarrow> s \<in> set [''true'', ''false'', ''1'', ''0'']"

definition companySizes :: "string list" where
  "companySizes = [''1-10'', ''11-50'', ''51-200'', ''200+'']"

text \<open>One error per validator of the chain that fails on the field.\<close>

definition check :: "string \<Rightarrow> bool list \<Rightarrow> verror list" where
  "check path oks = map (\<lambda>_. InvalidValue path) (filter Not oks)"

definition validationResult :: "lib \<Rightarrow> request \<Rightarrow> verror list" where
  "validationResult L req =
     (let fd = formData req in
        check ''formData.name'' [isLength (trim (toString (name fd))) 1 50]
      @ check ''formData.email'' [isEmail L (toString (email fd))]
      @ check ''formData.company'' [isLength (trim (toString (company fd))) 1 100]
      @ check ''formData.company_size'' [toString (company_size fd) \<in> set companySizes]
      @ check ''formData.it_challenge'' [isLength (trim (toString (it_challenge fd))) 1 100]
      @ (if it_setup fd = VUndefined then []
         else check ''formData.it_setup'' [isLength (trim (toString (it_setup fd))) 0 200])
      @ check ''formData.consent''
          [isBoolean (toString (consent fd)), toString (consent fd) = ''true'']
      @ check ''recaptchaToken'' [toString (recaptchaToken req) \<noteq> []])"

text \<open>The sanitizers of the chain write their result back into the request body.\<close>

definition sanitize :: "lib \<Rightarrow> request \<Rightarrow> request" where
  "sanitize L req =
     (let fd = formData req in
      req\<lparr>formData := fd
        \<lparr>name := VStr (escape (trim (toString (name fd)))),
         email := VStr (normalizeEmail L (toString (email fd))),
         company := VStr (escape (trim (toString (company fd)))),
         it_challenge := VStr (escape (trim (toString (it_challenge fd)))),
         it_setup := (if it_setup fd = VUndefined then VUndefined
                      else VStr (escape (trim (toString (it_setup fd)))))\<rparr>\<rparr>)"

definition requiredFields :: "string list" where
  "requiredFields =
     [''name'', ''email'', ''company'', ''company_size'', ''it_challenge'', ''consent'']"

text \<open>\<open>formData[field]\<close>.\<close>

definition field_of :: "form_data \<Rightarrow> string \<Rightarrow> jsval" where
  "field_of fd f =
     (if f = ''name'' then name fd
      else if f = ''email'' then email fd
      else if f = ''company'' then company fd
      else if f = ''company_size'' then company_size fd
      else if f = ''it_challenge'' then it_challenge fd
      else if f = ''it_setup'' then it_setup fd
      else if f = ''consent'' then consent fd
      else VUndefined)"

definition missingFields :: "form_data \<Rightarrow> string list" where
  "missingFields fd = filter (\<lambda>field. \<not> truthy (field_of fd field)) requiredFields"

section \<open>The external services\<close>

text \<open>A row of the subscriber store, as selected: the e-mail column and the lead-magnet
  map (\<open>None\<close> for a \<open>null\<close> column). The map is a JavaScript object: keys in insertion
  order, each with a timestamp string.\<close>

record row =
  row_email :: jsval
  lead_magnet_generated :: "(string \<times> string) list option"

text \<open>What the outside world answers during one request: the CAPTCHA verdict, the rows of
  the subscriber store for the token, the text of the completion, whether the upsert
  goes through, the identifier of the render job, its download URL, whether the mail
  is accepted; and the three readings of the clock in milliseconds.\<close>

record world =
  recaptchaResponse :: "bool outcome"
  leadMagnets :: "row list outcome"
  now :: int
  grokResponse :: "string outcome"
  nowISO_time :: int
  updateOk :: bool
  date_time :: int
  pdfResponse :: "jsval outcome"
  pdfUrlResponse :: "jsval outcome"
  sendMailOk :: bool

record payload =
  p_name :: jsval
  p_company :: jsval
  p_company_size :: jsval
  p_it_challenge :: jsval
  p_it_setup :: jsval
  p_date :: string
  overview :: "json option"
  challengeAnalysis :: "json option"
  recommendations :: "json option"
  nextSteps :: "json option"

text \<open>The calls the handler makes, in the order it makes them.\<close>

datatype effect =
    RecaptchaVerify jsval
  | SubscriberSelect jsval
  | GrokCompletion "jsval list"
  | SubscriberUpsert jsval jsval "(string \<times> string) list"
  | PdfCreate payload
  | Wait nat
  | PdfFetch jsval
  | SendMail jsval jsval jsval jsval

fun is_recaptcha :: "effect \<Rightarrow> bool" where
  "is_recaptcha (RecaptchaVerify _) = True"
| "is_recaptcha _ = False"

fun is_store :: "effect \<Rightarrow> bool" where
  "is_store (SubscriberSelect _) = True"
| "is_store (SubscriberUpsert _ _ _) = True"
| "is_store _ = False"

fun is_upsert :: "effect \<Rightarrow> bool" where
  "is_upsert (SubscriberUpsert _ _ _) = True"
| "is_upsert _ = False"

fun is_completion :: "effect \<Rightarrow> bool" where
  "is_completion (GrokCompletion _) = True"
| "is_completion _ = False"

fun is_render :: "effect \<Rightarrow> bool" where
  "is_render (PdfCreate _) = True"
| "is_render _ = False"

fun is_fetch :: "effect \<Rightarrow> bool" where
  "is_fetch (PdfFetch _) = True"
| "is_fetch _ = False"

fun is_wait :: "effect \<Rightarrow> bool" where
  "is_wait (Wait _) = True"
| "is_wait _ = False"

fun is_mail :: "effect \<Rightarrow> bool" where
  "is_mail (SendMail _ _ _ _) = True"
| "is_mail _ = False"

definition calls :: "(effect \<Rightarrow> bool) \<Rightarrow> effect list \<Rightarrow> nat" where
  "calls P t = length (filter P t)"

section \<open>The handler\<close>

datatype body =
    Errors "verror list"
  | Error string
  | Message string
  | Delivered string jsval

record response =
  status :: nat
  body :: body

type_synonym run = "response \<times> effect list"

definition emit :: "effect \<Rightarrow> run \<Rightarrow> run" where
  "emit e r = (fst r, e # snd r)"

definition reply :: "nat \<Rightarrow> body \<Rightarrow> run" where
  "reply code b = (\<lparr>status = code, body = b\<rparr>, [])"

text \<open>The \<open>catch\<close> of the handler: whatever was thrown, one answer.\<close>

definition failure :: run where
  "failure = reply 500 (Error ''Failed to generate or email assessment'')"

definition orDefault :: "jsval \<Rightarrow> jsval" where
  "orDefault v = (if truthy v then v else VStr ''Not provided'')"

definition sendEmail :: "world \<Rightarrow> form_data \<Rightarrow> jsval \<Rightarrow> run" where
  "sendEmail W fd pdfUrl =
     emit (SendMail (email fd) (name fd) (company fd) pdfUrl)
       (if sendMailOk W
        then reply 200 (Delivered ''Assessment generated and emailed successfully'' pdfUrl)
        else failure)"

definition fetchPdfUrl :: "world \<Rightarrow> form_data \<Rightarrow> jsval \<Rightarrow> run" where
  "fetchPdfUrl W fd documentId =
     emit (Wait 20000)
       (emit (PdfFetch documentId)
          (case pdfUrlResponse W of
             Failed \<Rightarrow> failure
           | Returned pdfUrl \<Rightarrow> sendEmail W fd pdfUrl))"

text \<open>\<open>assessment.assessmentSections\<close>: a \<open>TypeError\<close> on \<open>null\<close> (the outer \<open>None\<close>),
  \<open>undefined\<close> (the inner \<open>None\<close>) on a value without that property.\<close>

fun assessmentSections :: "json \<Rightarrow> json option option" where
  "assessmentSections JNull = None"
| "assessmentSections (JObj kvs) = Some (map_of kvs ''assessmentSections'')"
| "assessmentSections _ = Some None"

definition index_key :: "nat \<Rightarrow> string" where
  "index_key i = [char_of (48 + i)]"

text \<open>\<open>sections[i]\<close> for \<open>i < 10\<close>: a \<open>TypeError\<close> on \<open>undefined\<close> and \<open>null\<close>.\<close>

fun section_at :: "json option \<Rightarrow> nat \<Rightarrow> json option option" where
  "section_at None i = None"
| "section_at (Some JNull) i = None"
| "section_at (Some (JArr xs)) i = Some (if i < length xs then Some (xs ! i) else None)"
| "section_at (Some (JStr s)) i = Some (if i < length s then Some (JStr [s ! i]) else None)"
| "section_at (Some (JObj kvs)) i = Some (map_of kvs (index_key i))"
| "section_at (Some _) i = Some None"

definition renderPayload :: "lib \<Rightarrow> world \<Rightarrow> form_data \<Rightarrow> json \<Rightarrow> payload option" where
  "renderPayload L W fd assessment =
     (case assessmentSections assessment of
        None \<Rightarrow> None
      | Some secs \<Rightarrow>
          (case (section_at secs 0, section_at secs 1, section_at secs 2, section_at secs 3) of
             (Some s0, Some s1, Some s2, Some s3) \<Rightarrow>
               Some \<lparr>p_name = name fd, p_company = company fd,
                     p_company_size = company_size fd,
                     p_it_challenge = it_challenge fd,
                     p_it_setup = orDefault (it_setup fd),
                     p_date = takeWhile (\<lambda>c. c \<noteq> CHR ''T'') (toISOString L (date_time W)),
                     overview = s0, challengeAnalysis = s1,
                     recommendations = s2, nextSteps = s3\<rparr>
           | _ \<Rightarrow> None))"

definition renderPdf :: "lib \<Rightarrow> world \<Rightarrow> form_data \<Rightarrow> json \<Rightarrow> run" where
  "renderPdf L W fd assessment =
     (case renderPayload L W fd assessment of
        None \<Rightarrow> failure
      | Some p \<Rightarrow>
          emit (PdfCreate p)
            (case pdfResponse W of
               Failed \<Rightarrow> failure
             | Returned documentId \<Rightarrow> fetchPdfUrl W fd documentId))"

definition updateSubscriber ::
  "lib \<Rightarrow> world \<Rightarrow> form_data \<Rightarrow> jsval \<Rightarrow> (string \<times> string) list \<Rightarrow> json \<Rightarrow> run" where
  "updateSubscriber L W fd token leadMagnetData assessment =
     (let nowISO = toISOString L (nowISO_time W) in
      emit (SubscriberUpsert (email fd) token
              (AList.update ''IT Assessment'' nowISO leadMagnetData))
        (if updateOk W then renderPdf L W fd assessment else failure))"

definition promptFields :: "form_data \<Rightarrow> jsval list" where
  "promptFields fd =
     [name fd, company fd, company_size fd, it_challenge fd, orDefault (it_setup fd)]"

definition generate ::
  "lib \<Rightarrow> world \<Rightarrow> form_data \<Rightarrow> jsval \<Rightarrow> (string \<times> string) list \<Rightarrow> run" where
  "generate L W fd token leadMagnetData =
     emit (GrokCompletion (promptFields fd))
       (case generateAssessment L (grokResponse W) of
          Failed \<Rightarrow> failure
        | Returned assessment \<Rightarrow> updateSubscriber L W fd token leadMagnetData assessment)"

text \<open>\<open>leadMagnets?.[0]?.lead_magnet_generated || {}\<close>.\<close>

definition leadMagnetData :: "row list \<Rightarrow> (string \<times> string) list" where
  "leadMagnetData rows =
     (case rows of
        [] \<Rightarrow> []
      | r # _ \<Rightarrow> (case lead_magnet_generated r of None \<Rightarrow> [] | Some m \<Rightarrow> m))"

text \<open>
  The 48-hour test. \<open>hoursDifference\<close> is the difference of two millisecond counts divided
  by 3600000 in floating point; since 48 is a float and rounding is monotone, comparing
  it with 48 is comparing the difference with 172800000. An invalid date makes the
  difference \<open>NaN\<close>, and the comparison false.
\<close>

definition alreadyGenerated :: "lib \<Rightarrow> int \<Rightarrow> (string \<times> string) list \<Rightarrow> bool" where
  "alreadyGenerated L now_ms lmd =
     (case map_of lmd ''IT Assessment'' of
        None \<Rightarrow> False
      | Some stamp \<Rightarrow>
          stamp \<noteq> [] \<and>
          (case Date_parse L stamp of
             None \<Rightarrow> False
           | Some lastGeneratedTime \<Rightarrow> now_ms - lastGeneratedTime \<le> 48 * (1000 * 60 * 60)))"

definition checkSubscriber :: "lib \<Rightarrow> world \<Rightarrow> form_data \<Rightarrow> jsval \<Rightarrow> run" where
  "checkSubscriber L W fd token =
     emit (SubscriberSelect token)
       (case leadMagnets W of
          Failed \<Rightarrow> failure
        | Returned rows \<Rightarrow>
            if alreadyGenerated L (now W) (leadMagnetData rows)
            then reply 200 (Message ''Assessment already generated within 48 hours'')
            else generate L W fd token (leadMagnetData rows))"

definition checkFields :: "lib \<Rightarrow> world \<Rightarrow> form_data \<Rightarrow> jsval \<Rightarrow> run" where
  "checkFields L W fd token =
     (if missingFields fd \<noteq> [] \<or> \<not> truthy token
      then reply 400 (Error (''Missing required fields: '' @ joinWith '', '' (missingFields fd)
                              @ '' or verificationToken''))
      else if \<not> truthy (consent fd)
      then reply 400 (Error ''Consent is required.'')
      else checkSubscriber L W fd token)"

definition botGate :: "lib \<Rightarrow> world \<Rightarrow> request \<Rightarrow> run" where
  "botGate L W req =
     (if truthy (honeypot req) then reply 403 (Error ''Bot detected.'')
      else emit (RecaptchaVerify (recaptchaToken req))
             (case recaptchaResponse W of
                Failed \<Rightarrow> failure
              | Returned success \<Rightarrow>
                  if \<not> success then reply 403 (Error ''Bot detected, please try again.'')
                  else checkFields L W (formData req) (verificationToken req)))"

text \<open>The route, for a request the rate limiter let through: the validation chain, then
  the handler body on the sanitized request. The result is the answer and the calls made.\<close>

definition handler :: "lib \<Rightarrow> world \<Rightarrow> request \<Rightarrow> run" where
  "handler L W req =
     (let errors = validationResult L req in
      if errors \<noteq> [] then reply 400 (Errors errors)
      else botGate L W (sanitize L req))"

section \<open>Requests that reach the subscriber check\<close>

text \<open>The request passes the validation chain, the honeypot test, the CAPTCHA and the
  second test of the required fields and of the verification token.\<close>

definition admitted :: "lib \<Rightarrow> world \<Rightarrow> request \<Rightarrow> bool" where
  "admitted L W req \<longleftrightarrow>
     validationResult L req = [] \<and>
     \<not> truthy (honeypot req) \<and>
     recaptchaResponse W = Returned True \<and>
     missingFields (formData (sanitize L req)) = [] \<and>
     truthy (verificationToken req)"

section \<open>Example data\<close>

text \<open>An instance of the library parameters for the examples: \<open>JSON.parse\<close> on the
  four JSON texts the examples use, and \<open>None\<close> elsewhere, as on every text of the examples
  that is not JSON; dates at two instants.\<close>

definition sample_parse :: "string \<Rightarrow> json option" where
  \<open>sample_parse s =
     (if s = ''true'' then Some (JBool True)
      else if s = ''{}'' then Some (JObj [])
      else if s = ''[{}]'' then Some (JArr [JObj []])
      else if s = ''{"assessmentSections":[]}''
      then Some (JObj [(''assessmentSections'', JArr [])])
      else None)\<close>

definition sample_lib :: lib where
  "sample_lib =
     \<lparr>isEmail = (\<lambda>s. CHR ''@'' \<in> set s),
      normalizeEmail = (\<lambda>s. s),
      JSON_parse = sample_parse,
      toISOString =
        (\<lambda>t. if t = 1767225602000 then ''2026-01-01T00:00:02.000Z''
             else ''2026-01-01T00:00:00.000Z''),
      Date_parse =
        (\<lambda>s. if s = ''2026-01-01T00:00:00.000Z'' then Some 1767225600000
             else if s = ''2026-01-01T00:00:02.000Z'' then Some 1767225602000
             else None)\<rparr>"

definition sample_request :: request where
  "sample_request =
     \<lparr>formData =
        \<lparr>name = VStr ''Ada'', email = VStr ''ada@example.com'', company = VStr ''Acme'',
         company_size = VStr ''1-10'', it_challenge = VStr ''backups'',
         it_setup = VUndefined, consent = VBool True\<rparr>,
      verificationToken = VStr ''tok'',
      honeypot = VUndefined,
      recaptchaToken = VStr ''r''\<rparr>"

definition sample_world :: world where
  \<open>sample_world =
     \<lparr>recaptchaResponse = Returned True,
      leadMagnets = Returned [],
      now = 1767225600000 + 1000,
      grokResponse = Returned ''{"assessmentSections":[]}'',
      nowISO_time = 1767225600000 + 2000,
      updateOk = True,
      date_time = 1767225600000 + 2000,
      pdfResponse = Returned (VStr ''doc-1''),
      pdfUrlResponse = Returned VUndefined,
      sendMailOk = True\<rparr>\<close>

definition sample_row :: row where
  "sample_row =
     \<lparr>row_email = VStr ''ada@example.com'',
      lead_magnet_generated =
        Some [(''Checklist'', ''2025-12-01T00:00:00.000Z''),
              (''IT Assessment'', ''2026-01-01T00:00:00.000Z'')]\<rparr>"

section \<open>Strings: trimming, fences and the brace match\<close>

lemma trim_wrapped:
  assumes "\<not> is_space a" "\<not> is_space b"
  shows "trim (a # xs @ [b]) = a # xs @ [b]"
  using assms by (simp add: trim_def)

lemma backtick_not_space: "\<not> is_space (CHR 0x60)"
  by (simp add: is_space_def)

lemma trim_fenced_json: "trim (''```json'' @ s @ ''```'') = ''```json'' @ s @ ''```''"
  using trim_wrapped [of "CHR 0x60" "CHR 0x60" "''``json'' @ s @ ''``''"]
  by (simp add: backtick_not_space)

lemma trim_fenced: "trim (''```'' @ s @ ''```'') = ''```'' @ s @ ''```''"
  using trim_wrapped [of "CHR 0x60" "CHR 0x60" "''``'' @ s @ ''``''"]
  by (simp add: backtick_not_space)

lemma stripFence_fenced_json: "stripFence (''```json'' @ s @ ''```'') = trim s"
  by (simp add: stripFence_def startsWith_def endsWith_def slice_def)

lemma startsWith_append:
  assumes t: "t \<noteq> []" "hd t \<notin> set p"
  shows "startsWith (s @ t) p \<longleftrightarrow> startsWith s p"
proof (cases "length p \<le> length s")
  case True
  then show ?thesis by (simp add: startsWith_def)
next
  case False
  have "\<not> startsWith s p"
  proof
    assume "startsWith s p"
    then have "length (take (length p) s) = length p"
      unfolding startsWith_def by (rule arg_cong)
    with False show False by simp
  qed
  moreover have "\<not> startsWith (s @ t) p"
  proof
    assume "startsWith (s @ t) p"
    then have eq: "take (length p) (s @ t) = p"
      by (simp only: startsWith_def)
    from False have "take (length p) (s @ t) ! length s = hd t"
      using t(1) by (simp add: nth_append hd_conv_nth)
    with eq have "p ! length s = hd t" by simp
    with False t(2) show False
      by (metis not_le nth_mem)
  qed
  ultimately show ?thesis by simp
qed

lemma startsWith_json_fence:
  "startsWith (''```'' @ s @ ''```'') ''```json'' \<longleftrightarrow> startsWith s ''json''"
proof -
  have "startsWith (''```'' @ s @ ''```'') ''```json'' \<longleftrightarrow> startsWith (s @ ''```'') ''json''"
    by (simp add: startsWith_def)
  also have "\<dots> \<longleftrightarrow> startsWith s ''json''"
    by (rule startsWith_append) simp_all
  finally show ?thesis .
qed

lemma stripFence_fenced:
  assumes "\<not> startsWith s ''json''"
  shows "stripFence (''```'' @ s @ ''```'') = trim s"
proof -
  have "\<not> startsWith (''```'' @ s @ ''```'') ''```json''"
    using assms startsWith_json_fence by blast
  moreover have "startsWith (''```'' @ s @ ''```'') ''```''"
    and "endsWith (''```'' @ s @ ''```'') ''```''"
    by (simp_all add: startsWith_def endsWith_def)
  moreover have "slice (''```'' @ s @ ''```'') 3 3 = s"
    by (simp add: slice_def)
  ultimately show ?thesis
    by (simp only: stripFence_def if_True if_False simp_thms)
qed

lemma startsWith_shorter:
  assumes "startsWith x (p @ q)"
  shows "startsWith x p"
proof -
  from assms have "take (length p) (take (length (p @ q)) x) = take (length p) (p @ q)"
    by (simp only: startsWith_def)
  then show ?thesis
    by (simp add: startsWith_def min_def)
qed

lemma stripFence_unfenced:
  assumes "\<not> (startsWith x ''```'' \<and> endsWith x ''```'')"
  shows "stripFence x = x"
proof -
  have "startsWith x ''```json'' \<Longrightarrow> startsWith x ''```''"
    using startsWith_shorter [of x "''```''" "''json''"] by simp
  with assms show ?thesis
    by (auto simp: stripFence_def)
qed

lemma jsonMatch_padded:
  assumes p: "CHR ''{'' \<notin> set p" and q: "CHR ''{'' \<notin> set q" "CHR ''}'' \<notin> set q"
  shows "jsonMatch (p @ s @ q) = jsonMatch s"
proof -
  let ?lb = "\<lambda>c. c \<noteq> CHR ''{''" and ?rb = "\<lambda>c. c \<noteq> CHR ''}''"
  have skip: "dropWhile ?lb (p @ s @ q) = dropWhile ?lb (s @ q)"
    using p by (intro dropWhile_append2) auto
  show ?thesis
  proof (cases "dropWhile ?lb s")
    case Nil
    then have "\<forall>c\<in>set s. c \<noteq> CHR ''{''"
      by (simp only: dropWhile_eq_Nil_conv)
    then have "dropWhile ?lb (s @ q) = []"
      using q by (auto simp: dropWhile_eq_Nil_conv)
    with skip have "dropWhile ?lb (p @ s @ q) = []"
      by (simp only:)
    then show ?thesis
      unfolding jsonMatch_def Nil by (simp only: list.case)
  next
    case (Cons b rest)
    then have "\<not> (\<forall>c\<in>set s. c \<noteq> CHR ''{'')"
      by (simp only: dropWhile_eq_Nil_conv [symmetric] list.distinct not_False_eq_True)
    then have "CHR ''{'' \<in> set s" by blast
    then have "dropWhile ?lb (s @ q) = dropWhile ?lb s @ q"
      by (intro dropWhile_append1 [where x = "CHR ''{''"]) simp_all
    with skip Cons have whole: "dropWhile ?lb (p @ s @ q) = b # (rest @ q)"
      by (simp only: append_Cons)
    have "dropWhile ?rb (rev q @ rev rest) = dropWhile ?rb (rev rest)"
      using q by (intro dropWhile_append2) auto
    then have rear: "dropWhile ?rb (rev (rest @ q)) = dropWhile ?rb (rev rest)"
      by (simp only: rev_append)
    have mem: "CHR ''}'' \<in> set (rest @ q) \<longleftrightarrow> CHR ''}'' \<in> set rest"
      using q by simp
    show ?thesis
      unfolding jsonMatch_def whole Cons by (simp only: list.case rear mem)
  qed
qed

lemma jsonMatch_fenced_json: "jsonMatch (''```json'' @ s @ ''```'') = jsonMatch s"
  by (rule jsonMatch_padded) simp_all

lemma jsonMatch_fenced: "jsonMatch (''```'' @ s @ ''```'') = jsonMatch s"
  by (rule jsonMatch_padded) simp_all

section \<open>The validation chain\<close>

lemma sanitize_simps:
  "honeypot (sanitize L req) = honeypot req"
  "verificationToken (sanitize L req) = verificationToken req"
  "recaptchaToken (sanitize L req) = recaptchaToken req"
  "consent (formData (sanitize L req)) = consent (formData req)"
  "company_size (formData (sanitize L req)) = company_size (formData req)"
  by (simp_all add: sanitize_def Let_def)

lemma check_Nil_iff: "check path oks = [] \<longleftrightarrow> (\<forall>ok\<in>set oks. ok)"
  by (auto simp: check_def filter_empty_conv)

lemma validationResult_Nil_iff:
  "validationResult L req = [] \<longleftrightarrow>
     isLength (trim (toString (name (formData req)))) 1 50 \<and>
     isEmail L (toString (email (formData req))) \<and>
     isLength (trim (toString (company (formData req)))) 1 100 \<and>
     toString (company_size (formData req)) \<in> set companySizes \<and>
     isLength (trim (toString (it_challenge (formData req)))) 1 100 \<and>
     (it_setup (formData req) \<noteq> VUndefined \<longrightarrow>
        isLength (trim (toString (it_setup (formData req)))) 0 200) \<and>
     toString (consent (formData req)) = ''true'' \<and>
     toString (recaptchaToken req) \<noteq> []"
  by (auto simp: validationResult_def Let_def check_Nil_iff isBoolean_def)

lemma escape_Nil_iff: "escape s = [] \<longleftrightarrow> s = []"
  by (cases s) (simp_all add: escape_def)

text \<open>The second test of the required fields repeats the chain: a request that passed the
  chain, and whose normalized e-mail address is not empty, passes it as well.\<close>

lemma recheck_redundant:
  assumes "validationResult L req = []"
    and "normalizeEmail L (toString (email (formData req))) \<noteq> []"
  shows "missingFields (formData (sanitize L req)) = []"
proof -
  from assms(1) have v:
    "trim (toString (name (formData req))) \<noteq> []"
    "trim (toString (company (formData req))) \<noteq> []"
    "trim (toString (it_challenge (formData req))) \<noteq> []"
    "toString (company_size (formData req)) \<in> set companySizes"
    "toString (consent (formData req)) = ''true''"
    by (auto simp: validationResult_Nil_iff isLength_def)
  from v(4) have "truthy (company_size (formData req))"
    by (cases "company_size (formData req)") (auto simp: companySizes_def split: if_splits)
  moreover from v(5) have "truthy (consent (formData req))"
    by (cases "consent (formData req)") (auto split: if_splits)
  ultimately show ?thesis
    using v(1-3) assms(2)
    by (simp add: missingFields_def requiredFields_def field_of_def sanitize_def Let_def
          escape_Nil_iff)
qed

section \<open>The shape of a run\<close>

lemma admitted_handler:
  assumes "admitted L W req"
  shows "handler L W req =
           emit (RecaptchaVerify (recaptchaToken req))
             (checkSubscriber L W (formData (sanitize L req)) (verificationToken req))"
proof -
  from assms have "missingFields (formData (sanitize L req)) = []"
    by (simp add: admitted_def)
  then have "truthy (consent (formData (sanitize L req)))"
    by (simp add: missingFields_def requiredFields_def field_of_def split: if_splits)
  with assms show ?thesis
    by (simp add: admitted_def handler_def botGate_def checkFields_def sanitize_simps)
qed

lemma upsert_before:
  assumes "\<forall>x\<in>set (takeWhile (\<lambda>x. \<not> is_upsert x) t). \<not> is_render x \<and> \<not> is_mail x"
    and "t = pre @ e # post" and "is_render e \<or> is_mail e"
  shows "\<exists>u\<in>set pre. is_upsert u"
proof (rule ccontr)
  assume "\<not> (\<exists>u\<in>set pre. is_upsert u)"
  then have "takeWhile (\<lambda>x. \<not> is_upsert x) t = pre @ takeWhile (\<lambda>x. \<not> is_upsert x) (e # post)"
    using assms(2) by (simp add: takeWhile_append2)
  moreover have "\<not> is_upsert e"
    using assms(3) by (cases e) auto
  ultimately have "e \<in> set (takeWhile (\<lambda>x. \<not> is_upsert x) t)"
    by simp
  with assms(1,3) show False by blast
qed

lemma handler_upsert_first:
  "\<forall>x\<in>set (takeWhile (\<lambda>x. \<not> is_upsert x) (snd (handler L W req))).
     \<not> is_render x \<and> \<not> is_mail x"
  by (auto simp: handler_def botGate_def checkFields_def checkSubscriber_def generate_def
        updateSubscriber_def emit_def reply_def failure_def Let_def
        split: if_splits outcome.splits)

lemma render_no_store: "filter is_store (snd (renderPdf L W fd a)) = []"
  by (simp add: renderPdf_def fetchPdfUrl_def sendEmail_def emit_def reply_def failure_def
        split: outcome.splits option.splits)

lemma render_failure:
  assumes "pdfResponse W = Failed \<or> pdfUrlResponse W = Failed \<or> \<not> sendMailOk W"
  shows "fst (renderPdf L W fd a) =
           \<lparr>status = 500, body = Error ''Failed to generate or email assessment''\<rparr>"
  using assms
  by (auto simp: renderPdf_def fetchPdfUrl_def sendEmail_def emit_def reply_def failure_def
        split: outcome.splits option.splits)

lemma render_shape:
  assumes "PdfCreate p \<in> set (snd (handler L W req))"
  shows "\<exists>pre a. snd (handler L W req) = pre @ snd (renderPdf L W (formData (sanitize L req)) a) \<and>
           fst (handler L W req) = fst (renderPdf L W (formData (sanitize L req)) a) \<and>
           renderPayload L W (formData (sanitize L req)) a = Some p \<and>
           (\<forall>x\<in>set pre. \<not> is_wait x \<and> \<not> is_fetch x)"
proof -
  have inner: "PdfCreate p \<in> set (snd (renderPdf L W fd a)) \<Longrightarrow> renderPayload L W fd a = Some p"
    for fd a
    by (auto simp: renderPdf_def fetchPdfUrl_def sendEmail_def emit_def reply_def failure_def
          split: outcome.splits option.splits if_splits)
  show ?thesis
  proof (cases "generateAssessment L (grokResponse W)")
    case Failed
    with assms show ?thesis
      by (auto simp: handler_def botGate_def checkFields_def checkSubscriber_def generate_def
            emit_def reply_def failure_def Let_def split: if_splits outcome.splits)
  next
    case (Returned a)
    let ?fd = "formData (sanitize L req)"
    let ?pre = "[RecaptchaVerify (recaptchaToken req), SubscriberSelect (verificationToken req),
        GrokCompletion (promptFields ?fd),
        SubscriberUpsert (email ?fd) (verificationToken req)
          (AList.update ''IT Assessment'' (toISOString L (nowISO_time W))
             (leadMagnetData (case leadMagnets W of Returned rows \<Rightarrow> rows | Failed \<Rightarrow> [])))]"
    from assms Returned
    have "snd (handler L W req) = ?pre @ snd (renderPdf L W ?fd a) \<and>
          fst (handler L W req) = fst (renderPdf L W ?fd a) \<and>
          PdfCreate p \<in> set (snd (renderPdf L W ?fd a))"
      by (auto simp: handler_def botGate_def checkFields_def checkSubscriber_def generate_def
            updateSubscriber_def sanitize_simps
            emit_def reply_def failure_def Let_def split: if_splits outcome.splits)
    moreover have "\<forall>x\<in>set ?pre. \<not> is_wait x \<and> \<not> is_fetch x"
      by simp
    ultimately show ?thesis
      using inner by blast
  qed
qed

section \<open>The example data\<close>

lemma sample_valid: "validationResult sample_lib sample_request = []"
  by (simp add: validationResult_Nil_iff sample_lib_def sample_request_def isLength_def
        trim_def is_space_def companySizes_def)

lemma sample_admitted: "admitted sample_lib sample_world sample_request"
proof -
  have "normalizeEmail sample_lib (toString (email (formData sample_request))) \<noteq> []"
    by (simp add: sample_lib_def sample_request_def)
  with sample_valid have "missingFields (formData (sanitize sample_lib sample_request)) = []"
    by (rule recheck_redundant)
  then show ?thesis
    by (simp add: admitted_def sample_valid) (simp add: sample_request_def sample_world_def)
qed

lemmas run_defs =
  handler_def botGate_def checkFields_def checkSubscriber_def generate_def
  updateSubscriber_def renderPdf_def fetchPdfUrl_def sendEmail_def emit_def reply_def failure_def

lemmas eval_defs =
  validationResult_def check_def isLength_def isBoolean_def companySizes_def
  sanitize_def missingFields_def requiredFields_def field_of_def
  escape_def trim_def is_space_def startsWith_def endsWith_def slice_def
  stripFence_def jsonMatch_def parseContent_def generateAssessment_def
  renderPayload_def promptFields_def orDefault_def index_key_def
  leadMagnetData_def alreadyGenerated_def calls_def Let_def

lemmas sample_defs =
  sample_lib_def sample_parse_def sample_request_def sample_world_def sample_row_def

section \<open>The idempotence check\<close>

text \<open>
  Claim C1. A request that reaches the subscriber check (it passed validation, the bot gate
  and the test of the required fields, and the store answered with rows) and whose record
  holds an "IT Assessment" timestamp at most 48 hours old, measured as the difference of the
  clock and the timestamp in milliseconds, is answered 200 with the "already generated"
  message; the run holds no completion call, no render job and no mail. If the record holds
  no such timestamp, or one that is more than 48 hours old, the completion API is called:
  the pipeline proceeds.
\<close>

theorem throttle_within_48_hours:
  assumes "admitted L W req" and "leadMagnets W = Returned rows"
  shows "(\<forall>stamp t.
            map_of (leadMagnetData rows) ''IT Assessment'' = Some stamp \<and> stamp \<noteq> [] \<and>
            Date_parse L stamp = Some t \<and> now W - t \<le> 48 * 3600000 \<longrightarrow>
            fst (handler L W req) =
              \<lparr>status = 200, body = Message ''Assessment already generated within 48 hours''\<rparr> \<and>
            calls is_completion (snd (handler L W req)) = 0 \<and>
            calls is_render (snd (handler L W req)) = 0 \<and>
            calls is_mail (snd (handler L W req)) = 0)
       \<and> ((map_of (leadMagnetData rows) ''IT Assessment'' = None \<or>
            (\<exists>stamp t. map_of (leadMagnetData rows) ''IT Assessment'' = Some stamp \<and>
               Date_parse L stamp = Some t \<and> now W - t > 48 * 3600000)) \<longrightarrow>
            calls is_completion (snd (handler L W req)) = 1)"
proof -
  have run: "handler L W req =
      emit (RecaptchaVerify (recaptchaToken req))
        (emit (SubscriberSelect (verificationToken req))
          (if alreadyGenerated L (now W) (leadMagnetData rows)
           then reply 200 (Message ''Assessment already generated within 48 hours'')
           else generate L W (formData (sanitize L req)) (verificationToken req)
                  (leadMagnetData rows)))"
    using assms by (simp add: admitted_handler checkSubscriber_def)
  have gen: "calls is_completion (snd (generate L W fd tok lm)) = 1" for fd tok lm
    by (simp add: generate_def updateSubscriber_def renderPdf_def fetchPdfUrl_def sendEmail_def
          emit_def reply_def failure_def calls_def Let_def split: outcome.splits option.splits)
  show ?thesis
    unfolding run
    by (auto simp: alreadyGenerated_def emit_def reply_def calls_def gen [unfolded calls_def])
qed

theorem throttle_within_48_hours_witness:
  "fst (handler sample_lib (sample_world\<lparr>leadMagnets := Returned [sample_row]\<rparr>) sample_request) =
     \<lparr>status = 200, body = Message ''Assessment already generated within 48 hours''\<rparr> \<and>
   calls is_completion
     (snd (handler sample_lib (sample_world\<lparr>leadMagnets := Returned [sample_row]\<rparr>)
        sample_request)) = 0 \<and>
   calls is_completion (snd (handler sample_lib sample_world sample_request)) = 1 \<and>
   calls is_completion
     (snd (handler sample_lib
        (sample_world\<lparr>leadMagnets := Returned [sample_row], now := 1767225600000 + 172800001\<rparr>)
        sample_request)) = 1"
proof -
  let ?W1 = "sample_world\<lparr>leadMagnets := Returned [sample_row]\<rparr>"
  let ?W3 = "sample_world\<lparr>leadMagnets := Returned [sample_row],
               now := 1767225600000 + 172800001\<rparr>"
  have a1: "admitted sample_lib ?W1 sample_request"
    using sample_admitted by (simp add: admitted_def)
  have a3: "admitted sample_lib ?W3 sample_request"
    using sample_admitted by (simp add: admitted_def)
  have stamp: "map_of (leadMagnetData [sample_row]) ''IT Assessment'' =
                 Some ''2026-01-01T00:00:00.000Z''"
    "Date_parse sample_lib ''2026-01-01T00:00:00.000Z'' = Some 1767225600000"
    by (simp_all add: leadMagnetData_def sample_row_def sample_lib_def)
  have recent: "now ?W1 - 1767225600000 \<le> 48 * 3600000"
    and old: "now ?W3 - 1767225600000 > 48 * 3600000"
    by (simp_all add: sample_world_def)
  have absent: "map_of (leadMagnetData []) ''IT Assessment'' = None"
    by (simp add: leadMagnetData_def)
  have r0: "leadMagnets sample_world = Returned []"
    by (simp add: sample_world_def)
  from throttle_within_48_hours [OF a1, of "[sample_row]"] stamp recent
  have "fst (handler sample_lib ?W1 sample_request) =
          \<lparr>status = 200, body = Message ''Assessment already generated within 48 hours''\<rparr> \<and>
        calls is_completion (snd (handler sample_lib ?W1 sample_request)) = 0"
    by simp
  moreover from throttle_within_48_hours [OF sample_admitted r0] absent
  have "calls is_completion (snd (handler sample_lib sample_world sample_request)) = 1"
    by simp
  moreover from throttle_within_48_hours [OF a3, of "[sample_row]"] stamp old
  have "calls is_completion (snd (handler sample_lib ?W3 sample_request)) = 1"
    by simp
  ultimately show ?thesis by simp
qed

section \<open>Validation and the bot gate\<close>

text \<open>
  Claim C2. A submission in which one of the required fields name, email, company,
  company_size, it_challenge, consent is missing or fails its constraint (the length of
  the trimmed text, the e-mail shape, the four company sizes, a boolean), or in which
  consent is false or anything else than true, is answered 400 with the list of validation
  errors, which is not empty, and the run holds no call at all. The e-mail validator is a
  parameter; it is taken to reject the empty text.
\<close>

theorem invalid_submission_rejected:
  assumes "name fd = VUndefined \<or> \<not> isLength (trim (toString (name fd))) 1 50
         \<or> email fd = VUndefined \<or> \<not> isEmail L (toString (email fd))
         \<or> company fd = VUndefined \<or> \<not> isLength (trim (toString (company fd))) 1 100
         \<or> company_size fd = VUndefined \<or> toString (company_size fd) \<notin> set companySizes
         \<or> it_challenge fd = VUndefined
         \<or> \<not> isLength (trim (toString (it_challenge fd))) 1 100
         \<or> consent fd = VUndefined \<or> \<not> isBoolean (toString (consent fd))
         \<or> consent fd = VBool False \<or> toString (consent fd) \<noteq> ''true''"
    and "formData req = fd" and "\<not> isEmail L []"
  shows "validationResult L req \<noteq> [] \<and>
         handler L W req = (\<lparr>status = 400, body = Errors (validationResult L req)\<rparr>, [])"
proof -
  have "validationResult L req \<noteq> []"
    using assms
    by (auto simp: validationResult_Nil_iff isLength_def trim_def companySizes_def isBoolean_def)
  then show ?thesis
    by (simp add: handler_def reply_def Let_def)
qed

theorem invalid_submission_rejected_witness:
  "handler sample_lib sample_world
     (sample_request\<lparr>formData := (formData sample_request)\<lparr>consent := VBool False\<rparr>\<rparr>) =
     (\<lparr>status = 400, body = Errors [InvalidValue ''formData.consent'']\<rparr>, [])"
proof -
  let ?R = "sample_request\<lparr>formData := (formData sample_request)\<lparr>consent := VBool False\<rparr>\<rparr>"
  have "consent (formData ?R) = VBool False" by simp
  moreover have "\<not> isEmail sample_lib []" by (simp add: sample_lib_def)
  ultimately have
    "handler sample_lib sample_world ?R =
       (\<lparr>status = 400, body = Errors (validationResult sample_lib ?R)\<rparr>, [])"
    using invalid_submission_rejected [of "formData ?R" sample_lib ?R sample_world] by simp
  moreover have "validationResult sample_lib ?R = [InvalidValue ''formData.consent'']"
    by (simp add: eval_defs sample_defs)
  ultimately show ?thesis by simp
qed

text \<open>The no-break space is trimmed like the other white space: a name made of it alone
  is rejected, and a name of fifty letters followed by it is accepted.\<close>

lemma no_break_space_name_rejected:
  "validationResult sample_lib
     (sample_request\<lparr>formData := (formData sample_request)\<lparr>name := VStr [CHR 0xA0]\<rparr>\<rparr>) =
     [InvalidValue ''formData.name'']"
  by (simp add: eval_defs sample_defs)

lemma no_break_space_name_accepted:
  "validationResult sample_lib
     (sample_request\<lparr>formData := (formData sample_request)
        \<lparr>name := VStr (replicate 50 (CHR ''a'') @ [CHR 0xA0])\<rparr>\<rparr>) = []"
  by (simp add: eval_defs sample_defs numeral_eq_Suc)

text \<open>
  Claim C3. A submission that passes the validation chain and carries a honeypot value
  that is not empty is answered 403 "Bot detected." and the run holds no call: neither
  the CAPTCHA service nor any later step is reached.
\<close>

theorem honeypot_rejected:
  assumes "validationResult L req = []" and "truthy (honeypot req)"
  shows "handler L W req = (\<lparr>status = 403, body = Error ''Bot detected.''\<rparr>, [])"
  using assms by (simp add: handler_def botGate_def reply_def sanitize_simps)

theorem honeypot_rejected_witness:
  "truthy (honeypot (sample_request\<lparr>honeypot := VStr ''x''\<rparr>)) \<and>
   handler sample_lib sample_world (sample_request\<lparr>honeypot := VStr ''x''\<rparr>) =
     (\<lparr>status = 403, body = Error ''Bot detected.''\<rparr>, [])"
proof -
  have "validationResult sample_lib (sample_request\<lparr>honeypot := VStr ''x''\<rparr>) = []"
    using sample_valid by (simp add: validationResult_def)
  then show ?thesis
    using honeypot_rejected [of sample_lib "sample_request\<lparr>honeypot := VStr ''x''\<rparr>" sample_world]
    by simp
qed

text \<open>
  Claim C4. A submission that passes the validation chain and the honeypot test, and for
  which the CAPTCHA service answers success = false, is answered 403 "Bot detected, please
  try again."; the only call of the run is the CAPTCHA verification, so the completion API
  is not called.
\<close>

theorem captcha_failure_rejected:
  assumes "validationResult L req = []" and "\<not> truthy (honeypot req)"
    and "recaptchaResponse W = Returned False"
  shows "handler L W req =
           (\<lparr>status = 403, body = Error ''Bot detected, please try again.''\<rparr>,
            [RecaptchaVerify (recaptchaToken req)])
         \<and> calls is_completion (snd (handler L W req)) = 0"
  using assms
  by (simp add: handler_def botGate_def reply_def emit_def sanitize_simps calls_def)

theorem captcha_failure_rejected_witness:
  "handler sample_lib (sample_world\<lparr>recaptchaResponse := Returned False\<rparr>) sample_request =
     (\<lparr>status = 403, body = Error ''Bot detected, please try again.''\<rparr>,
      [RecaptchaVerify (VStr ''r'')])"
proof -
  have "\<not> truthy (honeypot sample_request)"
    and "recaptchaToken sample_request = VStr ''r''"
    by (simp_all add: sample_request_def)
  then show ?thesis
    using captcha_failure_rejected [OF sample_valid, of "sample_world\<lparr>recaptchaResponse := Returned False\<rparr>"]
    by simp
qed

section \<open>The assessment generator\<close>

text \<open>
  Claim C6, amended. For every text \<open>s\<close> that, once trimmed, is not itself enclosed in
  fence markers, the completion made of \<open>s\<close> between the markers \<open>```json\<close> and \<open>```\<close> gives
  the same result (the same document or the same failure) as the completion \<open>s\<close>; between two
  bare markers \<open>```\<close> it does so as well, provided \<open>s\<close> does not begin with the letters
  \<open>json\<close>.
\<close>

theorem fenced_output_parsed_alike:
  assumes "\<not> (startsWith (trim s) ''```'' \<and> endsWith (trim s) ''```'')"
  shows "generateAssessment L (Returned (''```json'' @ s @ ''```'')) =
           generateAssessment L (Returned s)
         \<and> (\<not> startsWith s ''json'' \<longrightarrow>
              generateAssessment L (Returned (''```'' @ s @ ''```'')) =
                generateAssessment L (Returned s))"
proof -
  from assms have plain: "stripFence (trim s) = trim s"
    by (rule stripFence_unfenced)
  have "parseContent L (''```json'' @ s @ ''```'') = parseContent L s"
    unfolding parseContent_def
    by (simp only: trim_fenced_json stripFence_fenced_json jsonMatch_fenced_json plain)
  moreover have "parseContent L (''```'' @ s @ ''```'') = parseContent L s"
    if "\<not> startsWith s ''json''"
    unfolding parseContent_def
    by (simp only: trim_fenced stripFence_fenced [OF that] jsonMatch_fenced plain)
  ultimately show ?thesis
    by (simp add: generateAssessment_def)
qed

theorem fenced_output_parsed_alike_witness:
  "generateAssessment sample_lib (Returned (''```json'' @ (CHR 0x0A # ''true'' @ [CHR 0x0A]) @ ''```'')) =
     Returned (JBool True) \<and>
   generateAssessment sample_lib (Returned (''```'' @ (CHR 0x0A # ''true'' @ [CHR 0x0A]) @ ''```'')) =
     Returned (JBool True)"
proof -
  let ?s = "CHR 0x0A # ''true'' @ [CHR 0x0A]"
  have "\<not> (startsWith (trim ?s) ''```'' \<and> endsWith (trim ?s) ''```'')"
    and "\<not> startsWith ?s ''json''"
    by (simp_all add: trim_def is_space_def startsWith_def)
  moreover have "generateAssessment sample_lib (Returned ?s) = Returned (JBool True)"
    by (simp add: eval_defs sample_defs)
  ultimately show ?thesis
    using fenced_output_parsed_alike [of ?s sample_lib] by simp
qed

text \<open>
  The claim as first stated, for every text, fails in both ways. Between two bare markers,
  the text \<open>json [{}]\<close> is read as the marker \<open>```json\<close> followed by the array \<open>[{}]\<close>;
  alone it is not JSON, and the brace match gives the object \<open>{}\<close>. The text
  \<open>```[{}]```\<close>, itself fenced, gives the array alone; fenced once more, one pair of markers
  is left after stripping, the text is not JSON, and the brace match gives the object.
\<close>

theorem fenced_output_counterexample:
  "generateAssessment sample_lib (Returned (''```'' @ ''json [{}]'' @ ''```'')) \<noteq>
     generateAssessment sample_lib (Returned ''json [{}]'') \<and>
   generateAssessment sample_lib (Returned (''```'' @ ''json [{}]'' @ ''```'')) =
     Returned (JArr [JObj []]) \<and>
   generateAssessment sample_lib (Returned ''json [{}]'') = Returned (JObj []) \<and>
   generateAssessment sample_lib (Returned (''```json'' @ ''```[{}]```'' @ ''```'')) \<noteq>
     generateAssessment sample_lib (Returned ''```[{}]```'') \<and>
   generateAssessment sample_lib (Returned (''```json'' @ ''```[{}]```'' @ ''```'')) =
     Returned (JObj []) \<and>
   generateAssessment sample_lib (Returned ''```[{}]```'') = Returned (JArr [JObj []])"
  by (simp add: eval_defs sample_defs)

text \<open>
  Claim C7. When the completion API was called for a request, and its answer is a text that
  is not JSON once trimmed and stripped of its fence, and that holds no opening brace
  followed by a closing one, the request is answered 500 with the generic message, and the
  run holds no render job and no mail.
\<close>

theorem unparsable_output_fails:
  assumes "0 < calls is_completion (snd (handler L W req))"
    and "grokResponse W = Returned rawContent"
    and "JSON_parse L (stripFence (trim rawContent)) = None"
    and "jsonMatch rawContent = None"
  shows "fst (handler L W req) =
           \<lparr>status = 500, body = Error ''Failed to generate or email assessment''\<rparr> \<and>
         calls is_render (snd (handler L W req)) = 0 \<and>
         calls is_mail (snd (handler L W req)) = 0"
proof -
  have "generateAssessment L (grokResponse W) = Failed"
    using assms(2-4) by (simp add: generateAssessment_def parseContent_def)
  then have gen: "generate L W fd tok lm = emit (GrokCompletion (promptFields fd)) failure"
    for fd tok lm
    by (simp add: generate_def)
  show ?thesis
    using assms(1)
    by (auto simp: handler_def botGate_def checkFields_def checkSubscriber_def gen
          emit_def reply_def failure_def calls_def Let_def split: if_splits outcome.splits)
qed

theorem unparsable_output_fails_witness:
  "handler sample_lib (sample_world\<lparr>grokResponse := Returned ''I cannot help''\<rparr>) sample_request =
     (\<lparr>status = 500, body = Error ''Failed to generate or email assessment''\<rparr>,
      [RecaptchaVerify (VStr ''r''), SubscriberSelect (VStr ''tok''),
       GrokCompletion [VStr ''Ada'', VStr ''Acme'', VStr ''1-10'', VStr ''backups'',
                       VStr ''Not provided'']])"
proof -
  let ?W = "sample_world\<lparr>grokResponse := Returned ''I cannot help''\<rparr>"
  have a: "admitted sample_lib ?W sample_request"
    using sample_admitted by (simp add: admitted_def)
  have run: "snd (handler sample_lib ?W sample_request) =
      [RecaptchaVerify (VStr ''r''), SubscriberSelect (VStr ''tok''),
       GrokCompletion [VStr ''Ada'', VStr ''Acme'', VStr ''1-10'', VStr ''backups'',
                       VStr ''Not provided'']]"
    unfolding admitted_handler [OF a]
    by (simp add: run_defs eval_defs sample_defs)
  have "0 < calls is_completion (snd (handler sample_lib ?W sample_request))"
    unfolding run by (simp add: calls_def)
  moreover have "grokResponse ?W = Returned ''I cannot help''"
    by simp
  moreover have "JSON_parse sample_lib (stripFence (trim ''I cannot help'')) = None"
    and "jsonMatch ''I cannot help'' = None"
    by (simp_all add: eval_defs sample_defs)
  ultimately have "fst (handler sample_lib ?W sample_request) =
           \<lparr>status = 500, body = Error ''Failed to generate or email assessment''\<rparr>"
    using unparsable_output_fails [of sample_lib ?W sample_request "''I cannot help''"]
    by blast
  with run show ?thesis
    by (simp add: prod_eq_iff)
qed

section \<open>The full pipeline\<close>

text \<open>
  Claim C5, amended. Take a request that reaches the subscriber check, whose record holds
  no "IT Assessment" timestamp or one more than 48 hours old, and let every service
  succeed: the upsert goes through, the render service accepts the job and answers the
  fetch, the mail is accepted. Let moreover the text of the completion give a document,
  directly or through the brace match, and let the \<open>assessmentSections\<close> of that document
  be a value that can be indexed. Then the run is the CAPTCHA check, the select, one
  completion call, one upsert that writes the fresh timestamp, one render job, the fixed
  delay, one fetch and one mail, and the answer is 200 with the message and the download
  URL.
\<close>

theorem fresh_request_full_pipeline:
  assumes "admitted L W req" and "leadMagnets W = Returned rows"
    and "map_of (leadMagnetData rows) ''IT Assessment'' = None \<or>
         (\<exists>stamp t. map_of (leadMagnetData rows) ''IT Assessment'' = Some stamp \<and>
            Date_parse L stamp = Some t \<and> now W - t > 48 * 3600000)"
    and "generateAssessment L (grokResponse W) = Returned assessment"
    and "updateOk W"
    and "renderPayload L W fd assessment = Some p"
    and "pdfResponse W = Returned documentId"
    and "pdfUrlResponse W = Returned pdfUrl"
    and "sendMailOk W"
    and "fd = formData (sanitize L req)"
  shows "handler L W req =
           (\<lparr>status = 200,
             body = Delivered ''Assessment generated and emailed successfully'' pdfUrl\<rparr>,
            [RecaptchaVerify (recaptchaToken req),
             SubscriberSelect (verificationToken req),
             GrokCompletion (promptFields fd),
             SubscriberUpsert (email fd) (verificationToken req)
               (AList.update ''IT Assessment'' (toISOString L (nowISO_time W))
                  (leadMagnetData rows)),
             PdfCreate p, Wait 20000, PdfFetch documentId,
             SendMail (email fd) (name fd) (company fd) pdfUrl])
         \<and> calls is_completion (snd (handler L W req)) = 1
         \<and> calls is_upsert (snd (handler L W req)) = 1
         \<and> calls is_render (snd (handler L W req)) = 1
         \<and> calls is_fetch (snd (handler L W req)) = 1
         \<and> calls is_mail (snd (handler L W req)) = 1"
proof -
  have "\<not> alreadyGenerated L (now W) (leadMagnetData rows)"
    using assms(3) by (auto simp: alreadyGenerated_def)
  then have "handler L W req =
           (\<lparr>status = 200,
             body = Delivered ''Assessment generated and emailed successfully'' pdfUrl\<rparr>,
            [RecaptchaVerify (recaptchaToken req),
             SubscriberSelect (verificationToken req),
             GrokCompletion (promptFields fd),
             SubscriberUpsert (email fd) (verificationToken req)
               (AList.update ''IT Assessment'' (toISOString L (nowISO_time W))
                  (leadMagnetData rows)),
             PdfCreate p, Wait 20000, PdfFetch documentId,
             SendMail (email fd) (name fd) (company fd) pdfUrl])"
    using assms(1,2,4-10)
    by (simp add: admitted_handler checkSubscriber_def generate_def updateSubscriber_def
          renderPdf_def fetchPdfUrl_def sendEmail_def emit_def reply_def)
  then show ?thesis
    by (simp add: calls_def)
qed

theorem fresh_request_full_pipeline_witness:
  "fst (handler sample_lib
          (sample_world\<lparr>leadMagnets := Returned [sample_row], now := 1767225600000 + 172800001,
                        pdfUrlResponse := Returned (VStr ''https://files/doc-1.pdf'')\<rparr>)
          sample_request) =
     \<lparr>status = 200,
      body = Delivered ''Assessment generated and emailed successfully''
               (VStr ''https://files/doc-1.pdf'')\<rparr> \<and>
   filter is_upsert
     (snd (handler sample_lib
          (sample_world\<lparr>leadMagnets := Returned [sample_row], now := 1767225600000 + 172800001,
                        pdfUrlResponse := Returned (VStr ''https://files/doc-1.pdf'')\<rparr>)
          sample_request)) =
     [SubscriberUpsert (VStr ''ada@example.com'') (VStr ''tok'')
        [(''Checklist'', ''2025-12-01T00:00:00.000Z''),
         (''IT Assessment'', ''2026-01-01T00:00:02.000Z'')]]"
proof -
  let ?W = "sample_world\<lparr>leadMagnets := Returned [sample_row], now := 1767225600000 + 172800001,
                        pdfUrlResponse := Returned (VStr ''https://files/doc-1.pdf'')\<rparr>"
  let ?fd = "formData (sanitize sample_lib sample_request)"
  let ?p = "\<lparr>p_name = VStr ''Ada'', p_company = VStr ''Acme'', p_company_size = VStr ''1-10'',
             p_it_challenge = VStr ''backups'', p_it_setup = VStr ''Not provided'',
             p_date = ''2026-01-01'', overview = None, challengeAnalysis = None,
             recommendations = None, nextSteps = None\<rparr>"
  have a: "admitted sample_lib ?W sample_request"
    using sample_admitted by (simp add: admitted_def)
  have rows: "leadMagnets ?W = Returned [sample_row]"
    by simp
  have old: "\<exists>stamp t. map_of (leadMagnetData [sample_row]) ''IT Assessment'' = Some stamp \<and>
            Date_parse sample_lib stamp = Some t \<and> now ?W - t > 48 * 3600000"
    by (simp add: leadMagnetData_def sample_row_def sample_lib_def)
  have doc: "generateAssessment sample_lib (grokResponse ?W) =
               Returned (JObj [(''assessmentSections'', JArr [])])"
    by (simp add: eval_defs sample_defs)
  have pl: "renderPayload sample_lib ?W ?fd (JObj [(''assessmentSections'', JArr [])]) = Some ?p"
    by (simp add: eval_defs sample_defs)
  have ok: "updateOk ?W" "pdfResponse ?W = Returned (VStr ''doc-1'')"
    "pdfUrlResponse ?W = Returned (VStr ''https://files/doc-1.pdf'')" "sendMailOk ?W"
    by (simp_all add: sample_world_def)
  have fd: "email ?fd = VStr ''ada@example.com''" "verificationToken sample_request = VStr ''tok''"
    "toISOString sample_lib (nowISO_time ?W) = ''2026-01-01T00:00:02.000Z''"
    by (simp_all add: eval_defs sample_defs)
  have iso: "toISOString sample_lib (nowISO_time sample_world) = ''2026-01-01T00:00:02.000Z''"
    by (simp add: sample_lib_def sample_world_def)
  note run = fresh_request_full_pipeline
    [OF a rows disjI2 [OF old] doc ok(1) pl ok(2-4) refl, THEN conjunct1]
  show ?thesis
    unfolding run by (simp add: fd iso leadMagnetData_def sample_row_def)
qed

text \<open>
  The claim as first stated asks of the services only that they succeed. The completion
  \<open>{}\<close> is JSON and every call goes through, but the document has no
  \<open>assessmentSections\<close>: reading its first section throws after the upsert, the answer is
  500, and no render job is submitted and no mail sent.
\<close>

theorem fresh_request_counterexample:
  "admitted sample_lib (sample_world\<lparr>grokResponse := Returned ''{}''\<rparr>) sample_request \<and>
   leadMagnets (sample_world\<lparr>grokResponse := Returned ''{}''\<rparr>) = Returned [] \<and>
   generateAssessment sample_lib (grokResponse (sample_world\<lparr>grokResponse := Returned ''{}''\<rparr>)) =
     Returned (JObj []) \<and>
   updateOk (sample_world\<lparr>grokResponse := Returned ''{}''\<rparr>) \<and>
   pdfResponse (sample_world\<lparr>grokResponse := Returned ''{}''\<rparr>) = Returned (VStr ''doc-1'') \<and>
   pdfUrlResponse (sample_world\<lparr>grokResponse := Returned ''{}''\<rparr>) = Returned VUndefined \<and>
   sendMailOk (sample_world\<lparr>grokResponse := Returned ''{}''\<rparr>) \<and>
   handler sample_lib (sample_world\<lparr>grokResponse := Returned ''{}''\<rparr>) sample_request =
     (\<lparr>status = 500, body = Error ''Failed to generate or email assessment''\<rparr>,
      [RecaptchaVerify (VStr ''r''), SubscriberSelect (VStr ''tok''),
       GrokCompletion [VStr ''Ada'', VStr ''Acme'', VStr ''1-10'', VStr ''backups'',
                       VStr ''Not provided''],
       SubscriberUpsert (VStr ''ada@example.com'') (VStr ''tok'')
         [(''IT Assessment'', ''2026-01-01T00:00:02.000Z'')]])"
proof -
  have "admitted sample_lib (sample_world\<lparr>grokResponse := Returned ''{}''\<rparr>) sample_request"
    using sample_admitted by (simp add: admitted_def)
  moreover have
    "handler sample_lib (sample_world\<lparr>grokResponse := Returned ''{}''\<rparr>) sample_request =
     (\<lparr>status = 500, body = Error ''Failed to generate or email assessment''\<rparr>,
      [RecaptchaVerify (VStr ''r''), SubscriberSelect (VStr ''tok''),
       GrokCompletion [VStr ''Ada'', VStr ''Acme'', VStr ''1-10'', VStr ''backups'',
                       VStr ''Not provided''],
       SubscriberUpsert (VStr ''ada@example.com'') (VStr ''tok'')
         [(''IT Assessment'', ''2026-01-01T00:00:02.000Z'')]])"
    by (simp add: run_defs eval_defs sample_defs)
  moreover have
    "generateAssessment sample_lib (grokResponse (sample_world\<lparr>grokResponse := Returned ''{}''\<rparr>)) =
     Returned (JObj [])"
    by (simp add: eval_defs sample_defs)
  ultimately show ?thesis
    by (simp add: sample_world_def)
qed

section \<open>The state updater\<close>

text \<open>
  Claim C8. In every run, a render job or a mail comes after an upsert of the subscriber
  record. When the run reaches the upsert, the upsert goes through, and the render job, the
  fetch or the mail then fails, the answer is 500 and the only calls to the subscriber store
  in the whole run are the select and that upsert with the fresh timestamp: nothing takes
  the timestamp back.
\<close>

theorem timestamp_written_before_delivery:
  "(\<forall>pre e post. snd (handler L W req) = pre @ e # post \<and> (is_render e \<or> is_mail e) \<longrightarrow>
      (\<exists>u\<in>set pre. is_upsert u))
   \<and> (0 < calls is_upsert (snd (handler L W req)) \<and> updateOk W \<and>
       (pdfResponse W = Failed \<or> pdfUrlResponse W = Failed \<or> \<not> sendMailOk W) \<longrightarrow>
       fst (handler L W req) =
         \<lparr>status = 500, body = Error ''Failed to generate or email assessment''\<rparr> \<and>
       (\<exists>rows. leadMagnets W = Returned rows \<and>
          filter is_store (snd (handler L W req)) =
            [SubscriberSelect (verificationToken req),
             SubscriberUpsert (email (formData (sanitize L req))) (verificationToken req)
               (AList.update ''IT Assessment'' (toISOString L (nowISO_time W))
                  (leadMagnetData rows))]))"
proof (intro conjI allI impI)
  fix pre e post
  assume "snd (handler L W req) = pre @ e # post \<and> (is_render e \<or> is_mail e)"
  then show "\<exists>u\<in>set pre. is_upsert u"
    using upsert_before [OF handler_upsert_first] by blast
next
  assume a: "0 < calls is_upsert (snd (handler L W req)) \<and> updateOk W \<and>
       (pdfResponse W = Failed \<or> pdfUrlResponse W = Failed \<or> \<not> sendMailOk W)"
  then have fail: "fst (renderPdf L W fd a) =
           \<lparr>status = 500, body = Error ''Failed to generate or email assessment''\<rparr>" for fd a
    using render_failure by blast
  from a show "fst (handler L W req) =
         \<lparr>status = 500, body = Error ''Failed to generate or email assessment''\<rparr>"
    by (auto simp: handler_def botGate_def checkFields_def checkSubscriber_def generate_def
          updateSubscriber_def fail calls_def
          emit_def reply_def failure_def Let_def split: if_splits outcome.splits)
  from a show "\<exists>rows. leadMagnets W = Returned rows \<and>
          filter is_store (snd (handler L W req)) =
            [SubscriberSelect (verificationToken req),
             SubscriberUpsert (email (formData (sanitize L req))) (verificationToken req)
               (AList.update ''IT Assessment'' (toISOString L (nowISO_time W))
                  (leadMagnetData rows))]"
    by (auto simp: handler_def botGate_def checkFields_def checkSubscriber_def generate_def
          updateSubscriber_def render_no_store calls_def sanitize_simps
          emit_def reply_def failure_def Let_def split: if_splits outcome.splits)
qed

theorem timestamp_written_before_delivery_witness:
  "fst (handler sample_lib (sample_world\<lparr>sendMailOk := False\<rparr>) sample_request) =
     \<lparr>status = 500, body = Error ''Failed to generate or email assessment''\<rparr> \<and>
   filter is_store (snd (handler sample_lib (sample_world\<lparr>sendMailOk := False\<rparr>) sample_request)) =
     [SubscriberSelect (VStr ''tok''),
      SubscriberUpsert (VStr ''ada@example.com'') (VStr ''tok'')
        [(''IT Assessment'', ''2026-01-01T00:00:02.000Z'')]] \<and>
   (\<exists>u\<in>set (take 7 (snd (handler sample_lib (sample_world\<lparr>sendMailOk := False\<rparr>)
                           sample_request))). is_upsert u)"
proof -
  let ?W = "sample_world\<lparr>sendMailOk := False\<rparr>"
  let ?p = "\<lparr>p_name = VStr ''Ada'', p_company = VStr ''Acme'', p_company_size = VStr ''1-10'',
             p_it_challenge = VStr ''backups'', p_it_setup = VStr ''Not provided'',
             p_date = ''2026-01-01'', overview = None, challengeAnalysis = None,
             recommendations = None, nextSteps = None\<rparr>"
  let ?pre = "[RecaptchaVerify (VStr ''r''), SubscriberSelect (VStr ''tok''),
       GrokCompletion [VStr ''Ada'', VStr ''Acme'', VStr ''1-10'', VStr ''backups'',
                       VStr ''Not provided''],
       SubscriberUpsert (VStr ''ada@example.com'') (VStr ''tok'')
         [(''IT Assessment'', ''2026-01-01T00:00:02.000Z'')],
       PdfCreate ?p, Wait 20000, PdfFetch (VStr ''doc-1'')]"
  let ?e = "SendMail (VStr ''ada@example.com'') (VStr ''Ada'') (VStr ''Acme'') VUndefined"
  have run: "snd (handler sample_lib ?W sample_request) = ?pre @ ?e # []"
    by (simp add: run_defs eval_defs sample_defs)
  have reached: "0 < calls is_upsert (snd (handler sample_lib ?W sample_request))"
    unfolding run by (simp add: calls_def)
  have w: "updateOk ?W" "\<not> sendMailOk ?W" "leadMagnets ?W = Returned []"
    by (simp_all add: sample_world_def)
  have v: "email (formData (sanitize sample_lib sample_request)) = VStr ''ada@example.com''"
    "verificationToken sample_request = VStr ''tok''"
    "toISOString sample_lib (nowISO_time ?W) = ''2026-01-01T00:00:02.000Z''"
    by (simp_all add: eval_defs sample_defs)
  note inst = timestamp_written_before_delivery [of sample_lib ?W sample_request]
  from inst run have "\<exists>u\<in>set ?pre. is_upsert u"
    by (elim conjE allE [of _ ?pre] allE [of _ ?e] allE [of _ "[]"]) simp
  moreover from inst reached w(1,2)
  have "fst (handler sample_lib ?W sample_request) =
     \<lparr>status = 500, body = Error ''Failed to generate or email assessment''\<rparr>"
    by blast
  moreover from inst reached w
  have "filter is_store (snd (handler sample_lib ?W sample_request)) =
     [SubscriberSelect (verificationToken sample_request),
      SubscriberUpsert (email (formData (sanitize sample_lib sample_request)))
        (verificationToken sample_request)
        (AList.update ''IT Assessment'' (toISOString sample_lib (nowISO_time ?W))
           (leadMagnetData []))]"
    by auto
  ultimately show ?thesis
    unfolding v by (simp add: run leadMagnetData_def)
qed

text \<open>
  Claim C10. Whenever the run holds an upsert, the map it writes is the map of the first row
  fetched for the verification token (the empty map when there is none) with the key
  "IT Assessment" set to the fresh timestamp: that key holds the new timestamp, and every
  other key holds what the fetched map held.
\<close>

theorem upsert_preserves_other_lead_magnets:
  assumes "SubscriberUpsert e tok m \<in> set (snd (handler L W req))"
  shows "\<exists>rows. leadMagnets W = Returned rows \<and>
           m = AList.update ''IT Assessment'' (toISOString L (nowISO_time W))
                 (leadMagnetData rows) \<and>
           map_of m ''IT Assessment'' = Some (toISOString L (nowISO_time W)) \<and>
           (\<forall>k. k \<noteq> ''IT Assessment'' \<longrightarrow> map_of m k = map_of (leadMagnetData rows) k)"
proof -
  have after: "SubscriberUpsert e tok m \<notin> set (snd (renderPdf L W fd a))" for fd a
    by (simp add: renderPdf_def fetchPdfUrl_def sendEmail_def emit_def reply_def failure_def
          split: outcome.splits option.splits)
  have "\<exists>rows. leadMagnets W = Returned rows \<and>
           m = AList.update ''IT Assessment'' (toISOString L (nowISO_time W))
                 (leadMagnetData rows)"
    using assms
    by (auto simp: handler_def botGate_def checkFields_def checkSubscriber_def generate_def
          updateSubscriber_def after
          emit_def reply_def failure_def Let_def split: if_splits outcome.splits)
  then show ?thesis
    by (auto simp: update_conv')
qed

theorem upsert_preserves_other_lead_magnets_witness:
  "SubscriberUpsert (VStr ''ada@example.com'') (VStr ''tok'')
     [(''Checklist'', ''2025-12-01T00:00:00.000Z''),
      (''IT Assessment'', ''2026-01-01T00:00:02.000Z'')]
     \<in> set (snd (handler sample_lib
          (sample_world\<lparr>leadMagnets := Returned [sample_row], now := 1767225600000 + 172800001\<rparr>)
          sample_request)) \<and>
   map_of [(''Checklist'', ''2025-12-01T00:00:00.000Z''),
           (''IT Assessment'', ''2026-01-01T00:00:02.000Z'')] ''Checklist'' =
     map_of (leadMagnetData [sample_row]) ''Checklist''"
proof -
  let ?W = "sample_world\<lparr>leadMagnets := Returned [sample_row],
               now := 1767225600000 + 172800001\<rparr>"
  let ?m = "[(''Checklist'', ''2025-12-01T00:00:00.000Z''),
             (''IT Assessment'', ''2026-01-01T00:00:02.000Z'')]"
  have run: "snd (handler sample_lib ?W sample_request) =
      [RecaptchaVerify (VStr ''r''), SubscriberSelect (VStr ''tok''),
       GrokCompletion [VStr ''Ada'', VStr ''Acme'', VStr ''1-10'', VStr ''backups'',
                       VStr ''Not provided''],
       SubscriberUpsert (VStr ''ada@example.com'') (VStr ''tok'') ?m,
       PdfCreate \<lparr>p_name = VStr ''Ada'', p_company = VStr ''Acme'',
                  p_company_size = VStr ''1-10'', p_it_challenge = VStr ''backups'',
                  p_it_setup = VStr ''Not provided'', p_date = ''2026-01-01'',
                  overview = None, challengeAnalysis = None,
                  recommendations = None, nextSteps = None\<rparr>,
       Wait 20000, PdfFetch (VStr ''doc-1''),
       SendMail (VStr ''ada@example.com'') (VStr ''Ada'') (VStr ''Acme'') VUndefined]"
    by (simp add: run_defs eval_defs sample_defs)
  have written: "SubscriberUpsert (VStr ''ada@example.com'') (VStr ''tok'') ?m
      \<in> set (snd (handler sample_lib ?W sample_request))"
    unfolding run by simp
  have pick: "\<exists>r. P r \<and> Q r \<Longrightarrow> (\<And>r. P r \<Longrightarrow> r = r0) \<Longrightarrow> Q r0" for P Q and r0 :: "row list"
    by blast
  have "?m = AList.update ''IT Assessment'' (toISOString sample_lib (nowISO_time ?W))
                 (leadMagnetData [sample_row]) \<and>
        map_of ?m ''IT Assessment'' = Some (toISOString sample_lib (nowISO_time ?W)) \<and>
        (\<forall>k. k \<noteq> ''IT Assessment'' \<longrightarrow> map_of ?m k = map_of (leadMagnetData [sample_row]) k)"
    using upsert_preserves_other_lead_magnets [OF written]
    by (rule pick) simp
  then have "''Checklist'' \<noteq> ''IT Assessment'' \<longrightarrow>
      map_of ?m ''Checklist'' = map_of (leadMagnetData [sample_row]) ''Checklist''"
    by (elim conjE allE [of _ "''Checklist''"])
  then have "map_of ?m ''Checklist'' = map_of (leadMagnetData [sample_row]) ''Checklist''"
    by simp
  with written show ?thesis
    by (simp only: simp_thms)
qed

section \<open>The document renderer\<close>

text \<open>
  Claim C9. When a render job was submitted and the render service accepted it, the run
  goes on with one wait of 20000 milliseconds and one fetch of the job, and nothing but the
  download URL of the fetched job is read. Whatever that URL is, also when it is undefined
  or empty, the mail is sent with it, and when the mail is accepted the answer is 200 with
  that URL as downloadUrl.
\<close>

theorem single_fetch_after_fixed_delay:
  assumes "PdfCreate p \<in> set (snd (handler L W req))"
    and "pdfResponse W = Returned documentId"
  shows "calls is_wait (snd (handler L W req)) = 1 \<and>
         calls is_fetch (snd (handler L W req)) = 1 \<and>
         (\<exists>pre post. snd (handler L W req) =
            pre @ [PdfCreate p, Wait 20000, PdfFetch documentId] @ post) \<and>
         (\<forall>pdfUrl. pdfUrlResponse W = Returned pdfUrl \<longrightarrow>
            (\<exists>pre. snd (handler L W req) =
               pre @ [PdfCreate p, Wait 20000, PdfFetch documentId,
                      SendMail (email (formData (sanitize L req)))
                        (name (formData (sanitize L req)))
                        (company (formData (sanitize L req))) pdfUrl]) \<and>
            (sendMailOk W \<longrightarrow>
               fst (handler L W req) =
                 \<lparr>status = 200,
                  body = Delivered ''Assessment generated and emailed successfully'' pdfUrl\<rparr>))"
proof -
  let ?fd = "formData (sanitize L req)"
  from render_shape [OF assms(1)] obtain pre a where
    tr: "snd (handler L W req) = pre @ snd (renderPdf L W ?fd a)"
    and st: "fst (handler L W req) = fst (renderPdf L W ?fd a)"
    and pl: "renderPayload L W ?fd a = Some p"
    and pre: "\<forall>x\<in>set pre. \<not> is_wait x \<and> \<not> is_fetch x"
    by blast
  from pre have none: "filter is_wait pre = []" "filter is_fetch pre = []"
    by (simp_all add: filter_empty_conv)
  have shape: "snd (renderPdf L W ?fd a) =
      [PdfCreate p, Wait 20000, PdfFetch documentId] @
      (case pdfUrlResponse W of Failed \<Rightarrow> []
       | Returned pdfUrl \<Rightarrow> [SendMail (email ?fd) (name ?fd) (company ?fd) pdfUrl])"
    using pl assms(2)
    by (simp add: renderPdf_def fetchPdfUrl_def sendEmail_def emit_def reply_def failure_def
          split: outcome.splits)
  have ok: "pdfUrlResponse W = Returned pdfUrl \<Longrightarrow> sendMailOk W \<Longrightarrow>
      fst (renderPdf L W ?fd a) =
        \<lparr>status = 200,
         body = Delivered ''Assessment generated and emailed successfully'' pdfUrl\<rparr>"
    for pdfUrl
    using pl assms(2)
    by (simp add: renderPdf_def fetchPdfUrl_def sendEmail_def emit_def reply_def)
  have "calls is_wait (snd (handler L W req)) = 1" "calls is_fetch (snd (handler L W req)) = 1"
    by (simp_all add: calls_def tr shape none split: outcome.splits)
  moreover have "\<exists>pre post. snd (handler L W req) =
            pre @ [PdfCreate p, Wait 20000, PdfFetch documentId] @ post"
    unfolding tr shape by blast
  moreover have "\<exists>pre. snd (handler L W req) =
               pre @ [PdfCreate p, Wait 20000, PdfFetch documentId,
                      SendMail (email ?fd) (name ?fd) (company ?fd) pdfUrl]"
    if "pdfUrlResponse W = Returned pdfUrl" for pdfUrl
    unfolding tr shape using that by simp
  ultimately show ?thesis
    using ok st by simp
qed

theorem single_fetch_after_fixed_delay_witness:
  "pdfUrlResponse sample_world = Returned VUndefined \<and>
   fst (handler sample_lib sample_world sample_request) =
     \<lparr>status = 200,
      body = Delivered ''Assessment generated and emailed successfully'' VUndefined\<rparr> \<and>
   calls is_wait (snd (handler sample_lib sample_world sample_request)) = 1 \<and>
   calls is_fetch (snd (handler sample_lib sample_world sample_request)) = 1"
proof -
  let ?p = "\<lparr>p_name = VStr ''Ada'', p_company = VStr ''Acme'', p_company_size = VStr ''1-10'',
             p_it_challenge = VStr ''backups'', p_it_setup = VStr ''Not provided'',
             p_date = ''2026-01-01'', overview = None, challengeAnalysis = None,
             recommendations = None, nextSteps = None\<rparr>"
  have submitted: "PdfCreate ?p \<in> set (snd (handler sample_lib sample_world sample_request))"
    by (simp add: run_defs eval_defs sample_defs)
  have w: "pdfResponse sample_world = Returned (VStr ''doc-1'')"
    "pdfUrlResponse sample_world = Returned VUndefined" "sendMailOk sample_world"
    by (simp_all add: sample_world_def)
  from single_fetch_after_fixed_delay [OF submitted w(1)] w(2,3)
  show ?thesis
    by simp
qed

end
